theory Spec2Isabelle
  imports Complex_Main "HOL-Library.Sublist"
begin

section \<open>asciinema2video: the conversion pipeline of program.ts\<close>

text \<open>
  Strings of the program are modelled as \<^typ>\<open>string\<close>: the sequence of the bytes of
  their UTF-8 form, which for ASCII text is the text itself. A thrown
  \<^verbatim>\<open>new Error(message)\<close> is the value \<open>Inl (Error message)\<close> of a sum type; a function
  that returns normally yields \<open>Inr\<close>.
\<close>

datatype error = Error string

fun message :: "error \<Rightarrow> string" where
  "message (Error m) = m"

subsection \<open>Input resolver\<close>

text \<open>
  \<^verbatim>\<open>validateInputFile\<close> calls two functions of the Node.js runtime, \<^verbatim>\<open>path.resolve\<close>
  and \<^verbatim>\<open>fs.existsSync\<close>. They depend on the working directory and on the disk, so the
  model takes both as parameters.
\<close>

definition validateInputFile ::
  "(string \<Rightarrow> string) \<Rightarrow> (string \<Rightarrow> bool) \<Rightarrow> string \<Rightarrow> error + string" where
  "validateInputFile resolve existsSync inputPath =
     (let inputAbsPath = resolve inputPath in
      if \<not> existsSync inputAbsPath
      then Inl (Error (''Input file not found: '' @ inputAbsPath))
      else Inr inputAbsPath)"

subsection \<open>Cast data URI\<close>

text \<open>
  \<^verbatim>\<open>Buffer.from(castContent)\<close> is the UTF-8 byte sequence of the string, which is the
  model's representation of the string already; a byte is a \<^typ>\<open>char\<close> (8 bits), read
  as a number by \<^const>\<open>of_char\<close>. \<^verbatim>\<open>toString('base64')\<close> is the base64 encoding of
  RFC 4648 with the standard alphabet and \<open>=\<close> padding.
\<close>

definition base64Alphabet :: string where
  "base64Alphabet =
     ''ABCDEFGHIJKLMNOPQRSTUVWXYZabcdefghijklmnopqrstuvwxyz0123456789+/''"

definition base64Char :: "nat \<Rightarrow> char" where
  "base64Char i = base64Alphabet ! i"

fun toBase64 :: "string \<Rightarrow> string" where
  "toBase64 [] = []"
| "toBase64 [a] =
     (let x = (of_char a :: nat) in
      [base64Char (x div 4), base64Char ((x mod 4) * 16), CHR ''='', CHR ''=''])"
| "toBase64 [a, b] =
     (let x = (of_char a :: nat); y = (of_char b :: nat) in
      [base64Char (x div 4), base64Char ((x mod 4) * 16 + y div 16),
       base64Char ((y mod 16) * 4), CHR ''=''])"
| "toBase64 (a # b # c # rest) =
     (let x = (of_char a :: nat); y = (of_char b :: nat); z = (of_char c :: nat) in
      [base64Char (x div 4), base64Char ((x mod 4) * 16 + y div 16),
       base64Char ((y mod 16) * 4 + z div 64), base64Char (z mod 64)]
      @ toBase64 rest)"

definition dataUriPrefix :: string where
  "dataUriPrefix = ''data:application/json;base64,''"

definition createCastDataUri :: "string \<Rightarrow> string" where
  "createCastDataUri castContent =
     (let castBase64 = toBase64 castContent in dataUriPrefix @ castBase64)"

text \<open>
  The reader's side of the round trip, as the test suite performs it: remove the prefix
  (\<^verbatim>\<open>dataUri.replace('data:application/json;base64,', '')\<close>, which removes the first
  occurrence) and decode the rest as base64. The decoder is the strict one of RFC 4648:
  groups of four characters, padding only in the last group.
\<close>

fun indexOf :: "'a list \<Rightarrow> 'a \<Rightarrow> nat option" where
  "indexOf [] c = None"
| "indexOf (x # xs) c = (if x = c then Some 0 else map_option Suc (indexOf xs c))"

definition base64Value :: "char \<Rightarrow> nat option" where
  "base64Value c = indexOf base64Alphabet c"

fun fromBase64 :: "string \<Rightarrow> string option" where
  "fromBase64 [] = Some []"
| "fromBase64 (c1 # c2 # c3 # c4 # rest) =
     (case (base64Value c1, base64Value c2) of
        (Some i1, Some i2) \<Rightarrow>
          if c3 = CHR ''='' \<and> c4 = CHR ''='' \<and> rest = []
          then Some [char_of (i1 * 4 + i2 div 16)]
          else (case base64Value c3 of
                  Some i3 \<Rightarrow>
                    if c4 = CHR ''='' \<and> rest = []
                    then Some [char_of (i1 * 4 + i2 div 16),
                               char_of ((i2 mod 16) * 16 + i3 div 4)]
                    else (case (base64Value c4, fromBase64 rest) of
                            (Some i4, Some bytes) \<Rightarrow>
                              Some (char_of (i1 * 4 + i2 div 16)
                                    # char_of ((i2 mod 16) * 16 + i3 div 4)
                                    # char_of ((i3 mod 4) * 64 + i4) # bytes)
                          | _ \<Rightarrow> None)
                | None \<Rightarrow> None)
      | _ \<Rightarrow> None)"
| "fromBase64 _ = None"

fun removePrefix :: "string \<Rightarrow> string \<Rightarrow> string" where
  "removePrefix p s = (if prefix p s then drop (length p) s else s)"

subsection \<open>Numbers and the numeric parsers of the runtime\<close>

text \<open>
  A JavaScript Number is the not-a-number sentinel, an infinity, or a finite value.
  \<open>Val q\<close> stands for the Number value of the mathematical value \<open>q\<close> (written
  \<open>\<bbbF>(q)\<close> in ECMAScript: \<open>q\<close> rounded to binary64, which is \<open>q\<close> itself
  for every integer of magnitude at most \<open>2^53\<close>). The rounding is not computed, and
  the sign of zero is not kept.
\<close>

datatype number = NaN | PosInfinity | NegInfinity | Val rat













subsection \<open>Option normalizer\<close>

datatype theme =
  Asciinema | Dracula | GruvboxDark | Monokai | SolarizedDark | SolarizedLight | Tango | Nord

fun themeName :: "theme \<Rightarrow> string" where
  "themeName Asciinema = ''asciinema''"
| "themeName Dracula = ''dracula''"
| "themeName GruvboxDark = ''gruvbox-dark''"
| "themeName Monokai = ''monokai''"
| "themeName SolarizedDark = ''solarized-dark''"
| "themeName SolarizedLight = ''solarized-light''"
| "themeName Tango = ''tango''"
| "themeName Nord = ''nord''"

definition THEMES :: "theme list" where
  "THEMES = [Asciinema, Dracula, GruvboxDark, Monokai, SolarizedDark, SolarizedLight, Tango, Nord]"

text \<open>
  \<^verbatim>\<open>ConvertOptions\<close> and \<^verbatim>\<open>ParsedOptions\<close> have the same fields; the four numeric ones
  are strings in the first and Numbers in the second. The field \<^verbatim>\<open>output\<close> is
  written \<open>output'\<close>, since \<open>output\<close> is a keyword of Isabelle.
\<close>

record 'n options =
  output' :: string
  width :: 'n
  height :: 'n
  theme :: theme
  speed :: 'n
  scale :: 'n

type_synonym ParsedOptions = "number options"














subsection \<open>Page composer\<close>

record PlayerAssets =
  jsContent :: string
  cssContent :: string

text \<open>
  A template literal converts an interpolated Number with \<^verbatim>\<open>Number::toString\<close>. For the
  sentinels and for the integers up to \<open>2^53\<close> the result is modelled here; for every
  other value it depends on the binary64 digits of the value, and the model takes it from
  the parameter \<open>fractionToString\<close>.
\<close>

fun natToString :: "nat \<Rightarrow> string" where
  "natToString n =
     (if n < 10 then [''0123456789'' ! n]
      else natToString (n div 10) @ [''0123456789'' ! (n mod 10)])"

declare natToString.simps [simp del]

definition numberToString :: "(rat \<Rightarrow> string) \<Rightarrow> number \<Rightarrow> string" where
  "numberToString fractionToString n =
     (case n of
        NaN \<Rightarrow> ''NaN''
      | PosInfinity \<Rightarrow> ''Infinity''
      | NegInfinity \<Rightarrow> ''-Infinity''
      | Val q \<Rightarrow>
          if of_int \<lfloor>q\<rfloor> = q \<and> \<bar>q\<bar> \<le> 2 ^ 53
          then (if q < 0 then ''-'' else []) @ natToString (nat \<bar>\<lfloor>q\<rfloor>\<bar>)
          else fractionToString q)"

abbreviation newline :: string where
  "newline \<equiv> [CHR 0x0A]"

abbreviation quote :: string where
  "quote \<equiv> [CHR 0x27]"

abbreviation dquote :: string where
  "dquote \<equiv> [CHR 0x22]"

text \<open>
  The template literal of \<^verbatim>\<open>generateHtml\<close>, line by line; \<open>quote\<close> is the character
  \<open>'\<close> and \<open>dquote\<close> the character \<open>"\<close>. The five interpolated values are
  elements of their own.
\<close>

definition htmlParts ::
  "(rat \<Rightarrow> string) \<Rightarrow> PlayerAssets \<Rightarrow> string \<Rightarrow> ParsedOptions \<Rightarrow> string list" where
  "htmlParts fractionToString playerAssets castDataUri options =
     [''<!DOCTYPE html>'', newline,
      ''<html>'', newline,
      ''<head>'', newline,
      ''  <style>'', newline,
      ''    '', cssContent playerAssets, newline,
      ''    body {'', newline,
      ''      margin: 0;'', newline,
      ''      padding: 0;'', newline,
      ''      display: flex;'', newline,
      ''      justify-content: center;'', newline,
      ''      align-items: center;'', newline,
      ''      height: 100vh;'', newline,
      ''      background: #000;'', newline,
      ''    }'', newline,
      ''    #player-container {'', newline,
      ''      width: 100%;'', newline,
      ''      height: 100%;'', newline,
      ''    }'', newline,
      ''  </style>'', newline,
      ''</head>'', newline,
      ''<body>'', newline,
      ''  <div id='', dquote, ''player-container'', dquote, ''></div>'', newline,
      ''  <script>'', newline,
      ''    '', jsContent playerAssets, newline,
      ''  </script>'', newline,
      ''  <script>'', newline,
      ''    try {'', newline,
      ''      const container = document.getElementById('', quote, ''player-container'', quote, '');'', newline,
      ''      window.player = AsciinemaPlayer.create('', quote, castDataUri, quote, '', container, {'', newline,
      ''        theme: '', quote, themeName (theme options), quote, '','', newline,
      ''        speed: '', numberToString fractionToString (speed options), '','', newline,
      ''        fontSize: '', quote, ''medium'', quote, '','', newline,
      ''        autoPlay: false,'', newline,
      ''        preload: true,'', newline,
      ''        fit: '', quote, ''both'', quote, '','', newline,
      ''      });'', newline,
      newline,
      ''      window.playerEl = window.player.el;'', newline,
      ''      window.playerReady = true;'', newline,
      ''      window.playerEnded = false;'', newline,
      newline,
      ''      window.player.addEventListener('', quote, ''ended'', quote, '', () => {'', newline,
      ''         setTimeout(() => {'', newline,
      ''            window.playerEnded = true;'', newline,
      ''         }, 1000);'', newline,
      ''      });'', newline,
      ''    } catch (error) {'', newline,
      ''      window.playerError = error.toString();'', newline,
      ''    }'', newline,
      ''  </script>'', newline,
      ''</body>'', newline,
      ''</html>'']"

definition generateHtml ::
  "(rat \<Rightarrow> string) \<Rightarrow> PlayerAssets \<Rightarrow> string \<Rightarrow> ParsedOptions \<Rightarrow> string" where
  "generateHtml fractionToString playerAssets castDataUri options =
     concat (htmlParts fractionToString playerAssets castDataUri options)"

text \<open>
  The number of positions of a text at which a given text occurs, for the claim that an
  interpolated value occurs exactly once.
\<close>

fun occurrences :: "'a list \<Rightarrow> 'a list \<Rightarrow> nat" where
  "occurrences needle [] = (if needle = [] then 1 else 0)"
| "occurrences needle (c # cs) =
     (if prefix needle (c # cs) then 1 else 0) + occurrences needle cs"

text \<open>The inputs of the test \<^verbatim>\<open>should generate valid HTML with player assets\<close>.\<close>

definition testAssets :: PlayerAssets where
  "testAssets =
     \<lparr> jsContent = ''console.log('' @ dquote @ ''JS loaded'' @ dquote @ '')'',
       cssContent = ''body { margin: 0; }'' \<rparr>"

definition testDataUri :: string where
  "testDataUri = ''data:application/json;base64,eyJ0ZXN0IjoidHJ1ZSJ9''"

definition testOptions :: ParsedOptions where
  "testOptions =
     \<lparr> output' = ''test.mp4'', width = Val 800, height = Val 600, theme = Asciinema,
       speed = Val 1, scale = Val 1 \<rparr>"

subsection \<open>The bootstrap script of the generated page\<close>

text \<open>
  The last \<^verbatim>\<open>script\<close> element of the template creates the player and keeps its state in
  globals of the page. Its behaviour in the browser is modelled on the globals it writes
  and the timers it starts; time is counted in milliseconds, and a timer's callback runs
  when the clock reaches the time the timer is due (the latency of the browser's
  scheduler is left out). A flag that was never assigned is \<open>undefined\<close>, which the
  tests \<^verbatim>\<open>=== true\<close> of the program read as false.
\<close>

datatype jsvalue = Undefined | Null | Str string

fun truthy :: "jsvalue \<Rightarrow> bool" where
  "truthy Undefined = False"
| "truthy Null = False"
| "truthy (Str s) = (s \<noteq> [])"

text \<open>The conversion of a value interpolated into a template literal.\<close>

fun valueToString :: "jsvalue \<Rightarrow> string" where
  "valueToString Undefined = ''undefined''"
| "valueToString Null = ''null''"
| "valueToString (Str s) = s"

record window =
  playerReady :: bool
  playerElDefined :: bool
  playerEnded :: bool
  playerError :: jsvalue
  endedListener :: bool
  timers :: "nat list"
  clock :: nat

definition freshWindow :: window where
  "freshWindow =
     \<lparr> playerReady = False, playerElDefined = False, playerEnded = False,
       playerError = Undefined, endedListener = False, timers = [], clock = 0 \<rparr>"

text \<open>
  The \<^verbatim>\<open>try\<close> block: \<^verbatim>\<open>AsciinemaPlayer.create\<close> either returns the player or throws;
  the argument is the text of the thrown error, if any.
\<close>

definition bootstrap :: "string option \<Rightarrow> window \<Rightarrow> window" where
  "bootstrap thrown w =
     (case thrown of
        None \<Rightarrow>
          w\<lparr> playerElDefined := True, playerReady := True, playerEnded := False,
            endedListener := True \<rparr>
      | Some errorText \<Rightarrow> w\<lparr> playerError := Str errorText \<rparr>)"

text \<open>
  The listener of the player's \<^verbatim>\<open>ended\<close> event:
  \<^verbatim>\<open>setTimeout(() => { window.playerEnded = true; }, 1000)\<close>.
\<close>

definition playerEndedEvent :: "window \<Rightarrow> window" where
  "playerEndedEvent w =
     (if endedListener w then w\<lparr> timers := timers w @ [clock w + 1000] \<rparr> else w)"

text \<open>Time passes until \<open>t\<close>: the timers due by then run their callback.\<close>

definition advance :: "nat \<Rightarrow> window \<Rightarrow> window" where
  "advance t w =
     (if t < clock w then w
      else w\<lparr> clock := t,
             timers := filter (\<lambda>due. t < due) (timers w),
             playerEnded := (playerEnded w \<or> (\<exists>due \<in> set (timers w). due \<le> t)) \<rparr>)"

text \<open>The text of the listener, as the template has it.\<close>

definition endedListenerText :: "string list" where
  "endedListenerText =
     [''      window.player.addEventListener('', quote, ''ended'', quote, '', () => {'', newline,
      ''         setTimeout(() => {'', newline,
      ''            window.playerEnded = true;'', newline,
      ''         }, 1000);'', newline,
      ''      });'', newline]"

subsection \<open>Browser page, player initializer and recorder\<close>

text \<open>
  An awaited call of a collaborator resolves, rejects, or never settles. What the page
  and the recorder answer is not decided by the program, so the model takes their
  behaviour as a record of answers, as the mocks of the test suite do. Each function
  returns the calls it made, in order, and how its own promise settles.
\<close>

datatype 'a settled = Resolved 'a | Rejected error | Pending

record page =
  setContent :: "string \<Rightarrow> unit settled"
  waitForFunction :: "string \<Rightarrow> nat \<Rightarrow> unit settled"
  evaluatePlayerError :: "jsvalue settled"
  evaluatePlay :: "unit settled"

record recorderConfig =
  followNewTab :: bool
  fps :: nat
  ffmpeg_Path :: string
  videoFrameWidth :: number
  videoFrameHeight :: number

record recorder =
  importFfmpeg :: "string settled"
  recorderStart :: "string \<Rightarrow> unit settled"
  recorderStop :: "unit settled"

datatype logLevel = LogDebug | LogSuccess | LogError | LogStart | LogInfo

datatype call =
    SetContent string
  | OnConsole
  | WaitForFunction string nat
  | EvaluatePlayerError
  | EvaluatePlay
  | ImportFfmpeg
  | NewRecorder recorderConfig
  | RecorderStart string
  | RecorderStop
  | Consola logLevel "string list"

definition readyExpression :: string where
  "readyExpression = ''window.playerReady === true && window.playerEl !== undefined''"

definition endedExpression :: string where
  "endedExpression = ''window.playerEnded === true''"

definition setupPlayer :: "page \<Rightarrow> string \<Rightarrow> call list \<times> unit settled" where
  "setupPlayer page html =
     (case setContent page html of
        Rejected e \<Rightarrow> ([SetContent html], Rejected e)
      | Pending \<Rightarrow> ([SetContent html], Pending)
      | Resolved _ \<Rightarrow>
          (let calls = [SetContent html, OnConsole, WaitForFunction readyExpression 15000] in
           case waitForFunction page readyExpression 15000 of
             Resolved _ \<Rightarrow>
               (calls @ [Consola LogSuccess [''Player initialized successfully'']], Resolved ())
           | Pending \<Rightarrow> (calls, Pending)
           | Rejected _ \<Rightarrow>
               (case evaluatePlayerError page of
                  Rejected e \<Rightarrow> (calls @ [EvaluatePlayerError], Rejected e)
                | Pending \<Rightarrow> (calls @ [EvaluatePlayerError], Pending)
                | Resolved playerErrorValue \<Rightarrow>
                    (calls @ [EvaluatePlayerError]
                       @ (if truthy playerErrorValue
                          then [Consola LogError
                                  [''Player initialization error:'', valueToString playerErrorValue]]
                          else []),
                     Rejected (Error (''Player failed to initialize''
                       @ (if truthy playerErrorValue then '': '' @ valueToString playerErrorValue
                          else [])))))))"

definition recordVideo ::
  "recorder \<Rightarrow> page \<Rightarrow> string \<Rightarrow> ParsedOptions \<Rightarrow> call list \<times> unit settled" where
  "recordVideo rec page outputPath options =
     (case importFfmpeg rec of
        Rejected e \<Rightarrow> ([ImportFfmpeg], Rejected e)
      | Pending \<Rightarrow> ([ImportFfmpeg], Pending)
      | Resolved ffmpegPath \<Rightarrow>
          (let calls1 =
                 [ImportFfmpeg,
                  NewRecorder \<lparr> followNewTab = False, fps = 60, ffmpeg_Path = ffmpegPath,
                                videoFrameWidth = width options,
                                videoFrameHeight = height options \<rparr>,
                  Consola LogStart [''Starting recording...''],
                  RecorderStart outputPath] in
           case recorderStart rec outputPath of
             Rejected e \<Rightarrow> (calls1, Rejected e)
           | Pending \<Rightarrow> (calls1, Pending)
           | Resolved _ \<Rightarrow>
               (let calls2 = calls1 @ [Consola LogInfo [''Starting playback...''], EvaluatePlay] in
                case evaluatePlay page of
                  Rejected e \<Rightarrow> (calls2, Rejected e)
                | Pending \<Rightarrow> (calls2, Pending)
                | Resolved _ \<Rightarrow>
                    (let calls3 = calls2 @ [WaitForFunction endedExpression 0] in
                     case waitForFunction page endedExpression 0 of
                       Rejected e \<Rightarrow> (calls3, Rejected e)
                     | Pending \<Rightarrow> (calls3, Pending)
                     | Resolved _ \<Rightarrow>
                         (let calls4 =
                                calls3 @ [Consola LogInfo [''Stopping recording...''],
                                          RecorderStop] in
                          case recorderStop rec of
                            Rejected e \<Rightarrow> (calls4, Rejected e)
                          | Pending \<Rightarrow> (calls4, Pending)
                          | Resolved _ \<Rightarrow> (calls4, Resolved ()))))))"

text \<open>
  The timeout of \<^verbatim>\<open>page.waitForFunction\<close>, after the documentation of the browser
  automation library: the promise resolves when the expression first holds, rejects when
  the timeout (in milliseconds) passes first, and a timeout of 0 disables the timeout.
  \<open>holdsAfter\<close> is the time after the call at which the expression first holds, if it
  ever does. The result is how the promise settles and after how long (\<open>None\<close>: never).
\<close>

definition puppeteerWait :: "nat option \<Rightarrow> nat \<Rightarrow> unit settled \<times> nat option" where
  "puppeteerWait holdsAfter timeout =
     (case holdsAfter of
        Some t \<Rightarrow>
          if timeout = 0 \<or> t \<le> timeout then (Resolved (), Some t)
          else (Rejected (Error ''Waiting failed: timeout exceeded''), Some timeout)
      | None \<Rightarrow>
          if timeout = 0 then (Pending, None)
          else (Rejected (Error ''Waiting failed: timeout exceeded''), Some timeout))"

text \<open>
  A page whose waits follow that rule: the player becomes ready, and the playback ends,
  after the given times; every other call resolves, and \<open>err\<close> is the value of
  \<^verbatim>\<open>window.playerError\<close>.
\<close>

definition timedPage :: "nat option \<Rightarrow> nat option \<Rightarrow> jsvalue \<Rightarrow> page" where
  "timedPage readyAfter endedAfter err =
     \<lparr> setContent = (\<lambda>html. Resolved ()),
       waitForFunction =
         (\<lambda>expression timeout.
            fst (puppeteerWait
                   (if expression = readyExpression then readyAfter
                    else if expression = endedExpression then endedAfter else None)
                   timeout)),
       evaluatePlayerError = Resolved err,
       evaluatePlay = Resolved () \<rparr>"

definition workingRecorder :: recorder where
  "workingRecorder =
     \<lparr> importFfmpeg = Resolved ''/path/to/ffmpeg'',
       recorderStart = (\<lambda>path. Resolved ()),
       recorderStop = Resolved () \<rparr>"

subsection \<open>Top-level orchestrator, from the launch of the browser on\<close>
















section \<open>Verification\<close>

subsection \<open>Input resolver\<close>

text \<open>
  Claim C1. For every path whose resolved absolute form exists on disk,
  \<^verbatim>\<open>validateInputFile\<close> returns exactly the resolved absolute path; for every path whose
  resolved form does not exist it throws an error, and the message is
  \<open>Input file not found: \<close> followed by that same resolved path.
\<close>

theorem validateInputFile_resolved:
  "(existsSync (resolve inputPath) \<longrightarrow>
      validateInputFile resolve existsSync inputPath = Inr (resolve inputPath)) \<and>
   (\<not> existsSync (resolve inputPath) \<longrightarrow>
      (\<exists>e. validateInputFile resolve existsSync inputPath = Inl e \<and>
           message e = ''Input file not found: '' @ resolve inputPath \<and>
           suffix (resolve inputPath) (message e)))"
  by (simp add: validateInputFile_def Let_def suffix_def)

theorem validateInputFile_resolved_witness:
  "validateInputFile (\<lambda>p. ''/home/user/'' @ p) (\<lambda>p. p = ''/home/user/demo.cast'') ''demo.cast''
     = Inr ''/home/user/demo.cast'' \<and>
   (\<exists>e. validateInputFile (\<lambda>p. ''/home/user/'' @ p) (\<lambda>p. p = ''/home/user/demo.cast'')
          ''missing.cast'' = Inl e \<and>
        message e = ''Input file not found: /home/user/missing.cast'')"
  using validateInputFile_resolved
          [of "\<lambda>p. p = ''/home/user/demo.cast''" "\<lambda>p. ''/home/user/'' @ p" "''demo.cast''"]
        validateInputFile_resolved
          [of "\<lambda>p. p = ''/home/user/demo.cast''" "\<lambda>p. ''/home/user/'' @ p" "''missing.cast''"]
  by auto

subsection \<open>Cast data URI\<close>

lemma indexOf_nth: "distinct xs \<Longrightarrow> i < length xs \<Longrightarrow> indexOf xs (xs ! i) = Some i"
proof (induction xs arbitrary: i)
  case Nil
  then show ?case by simp
next
  case (Cons x xs)
  show ?case
  proof (cases i)
    case 0
    then show ?thesis by simp
  next
    case (Suc j)
    with Cons.prems have "xs ! j \<in> set xs" "x \<notin> set xs" by auto
    then have "x \<noteq> xs ! j" by auto
    with Suc Cons show ?thesis by simp
  qed
qed

lemma distinct_base64Alphabet: "distinct base64Alphabet"
  by (simp add: base64Alphabet_def)

lemma length_base64Alphabet: "length base64Alphabet = 64"
  by (simp add: base64Alphabet_def)

lemma base64Value_base64Char: "i < 64 \<Longrightarrow> base64Value (base64Char i) = Some i"
  by (simp add: base64Value_def base64Char_def indexOf_nth distinct_base64Alphabet
      length_base64Alphabet)

lemma base64Char_not_padding:
  assumes "i < 64"
  shows "base64Char i \<noteq> CHR ''=''"
proof -
  from assms have "base64Alphabet ! i \<in> set base64Alphabet"
    by (simp add: length_base64Alphabet)
  moreover have "CHR ''='' \<notin> set base64Alphabet"
    by (simp add: base64Alphabet_def)
  ultimately show ?thesis by (auto simp: base64Char_def)
qed

text \<open>Three bytes split into four 6-bit groups, and the groups put together again.\<close>

lemma sextet_bounds:
  fixes x y z :: nat
  assumes "x < 256" "y < 256" "z < 256"
  shows "x div 4 < 64" "(x mod 4) * 16 < 64" "(x mod 4) * 16 + y div 16 < 64"
    "(y mod 16) * 4 < 64" "(y mod 16) * 4 + z div 64 < 64" "z mod 64 < 64"
proof -
  have a: "x mod 4 < 4" "y mod 16 < 16" by simp_all
  have b: "y div 16 < 16" "z div 64 < 4" "x div 4 < 64" using assms by simp_all
  show "x div 4 < 64" by (rule b)
  show "(x mod 4) * 16 < 64" using a by simp
  show "(x mod 4) * 16 + y div 16 < 64" using a(1) b(1) by linarith
  show "(y mod 16) * 4 < 64" using a by simp
  show "(y mod 16) * 4 + z div 64 < 64" using a(2) b(2) by linarith
  show "z mod 64 < 64" by simp
qed

lemma sextet_recombine:
  fixes x y z :: nat
  assumes "x < 256" "y < 256" "z < 256"
  shows "(x div 4) * 4 + ((x mod 4) * 16) div 16 = x"
    "(x div 4) * 4 + ((x mod 4) * 16 + y div 16) div 16 = x"
    "(((x mod 4) * 16 + y div 16) mod 16) * 16 + ((y mod 16) * 4) div 4 = y"
    "(((x mod 4) * 16 + y div 16) mod 16) * 16 + ((y mod 16) * 4 + z div 64) div 4 = y"
    "(((y mod 16) * 4 + z div 64) mod 4) * 64 + z mod 64 = z"
proof -
  have b: "y div 16 < 16" "z div 64 < 4" using assms by simp_all
  show "(x div 4) * 4 + ((x mod 4) * 16) div 16 = x" by simp
  show "(x div 4) * 4 + ((x mod 4) * 16 + y div 16) div 16 = x" using b(1) by simp
  show "(((x mod 4) * 16 + y div 16) mod 16) * 16 + ((y mod 16) * 4) div 4 = y"
    using b(1) by simp
  show "(((x mod 4) * 16 + y div 16) mod 16) * 16 + ((y mod 16) * 4 + z div 64) div 4 = y"
    using b by simp
  show "(((y mod 16) * 4 + z div 64) mod 4) * 64 + z mod 64 = z"
    using b(2) by simp
qed

lemma fromBase64_toBase64: "fromBase64 (toBase64 bytes) = Some bytes"
proof (induction bytes rule: toBase64.induct)
  case 1
  show ?case by simp
next
  case (2 a)
  have x: "(of_char a :: nat) < 256" by simp
  show ?case
    using sextet_bounds(1,2)[OF x x x] sextet_recombine(1)[OF x x x]
    by (simp add: Let_def base64Value_base64Char)
next
  case (3 a b)
  have x: "(of_char a :: nat) < 256" and y: "(of_char b :: nat) < 256" by simp_all
  show ?case
    using sextet_bounds(1,3,4)[OF x y y] sextet_recombine(2,3)[OF x y y]
    by (simp add: Let_def base64Value_base64Char base64Char_not_padding)
next
  case (4 a b c rest)
  have x: "(of_char a :: nat) < 256" and y: "(of_char b :: nat) < 256"
    and z: "(of_char c :: nat) < 256" by simp_all
  show ?case
    using sextet_bounds(1,3,5,6)[OF x y z] sextet_recombine(2,4,5)[OF x y z] "4.IH"
    by (simp add: Let_def base64Value_base64Char base64Char_not_padding)
qed

text \<open>
  Claim C3. For every text content, stripping the \<open>data:application/json;base64,\<close>
  prefix from the data URI that \<^verbatim>\<open>createCastDataUri\<close> produces and base64-decoding the
  rest succeeds and yields exactly the bytes of the content.
\<close>

theorem createCastDataUri_round_trip:
  "prefix dataUriPrefix (createCastDataUri castContent) \<and>
   fromBase64 (removePrefix dataUriPrefix (createCastDataUri castContent)) = Some castContent"
  by (simp add: createCastDataUri_def fromBase64_toBase64)

subsection \<open>Numeric parsing and the option normalizer\<close>



















































subsection \<open>Page composer\<close>

lemma sublist_concat_member: "x \<in> set xss \<Longrightarrow> sublist x (concat xss)"
proof -
  assume "x \<in> set xss"
  then obtain as bs where "xss = as @ x # bs" by (auto dest: split_list)
  then have "concat xss = concat as @ x @ concat bs" by simp
  then show ?thesis unfolding sublist_def by blast
qed

lemma sublist_concat_part: "sublist (concat ys) (concat (xs @ ys @ zs))"
  unfolding sublist_def by (rule exI[of _ "concat xs"], rule exI[of _ "concat zs"]) simp

lemma occurrences_prefix: "prefix needle hay \<Longrightarrow> 1 \<le> occurrences needle hay"
  by (cases hay) auto

lemma occurrences_append: "1 \<le> occurrences needle (ps @ needle @ ss)"
proof (induction ps)
  case Nil
  show ?case using occurrences_prefix[of needle "needle @ ss"] by simp
next
  case (Cons p ps)
  then show ?case by simp
qed

lemma sublist_occurrences:
  assumes "sublist needle hay"
  shows "1 \<le> occurrences needle hay"
proof -
  from assms obtain ps ss where "hay = ps @ needle @ ss" unfolding sublist_def by blast
  then show ?thesis using occurrences_append[of needle ps ss] by simp
qed

lemma occurrences_single: "occurrences [c] hay = count_list hay c"
  by (induction hay) auto

lemma count_list_concat: "count_list (concat xss) c = sum_list (map (\<lambda>xs. count_list xs c) xss)"
  by (induction xss) simp_all

lemma numberToString_1: "numberToString f (Val 1) = ''1''"
  by (simp add: numberToString_def natToString.simps)

text \<open>
  Claim C4 says that each interpolated value occurs exactly once in the page. With the
  inputs of the test suite the speed is 1, its literal is \<open>1\<close>, and the page has six
  occurrences of it: in \<open>100vh\<close>, twice in \<open>100%\<close>, in the data URI, in \<open>speed: 1\<close>
  and in the delay \<open>1000\<close>. (The speed is an integer, so the rendering of fractions is
  not consulted.)
\<close>

theorem generateHtml_speed_counterexample:
  "numberToString (\<lambda>q. []) (speed testOptions) = ''1'' \<and>
   occurrences ''1'' (generateHtml (\<lambda>q. []) testAssets testDataUri testOptions) = 6"
proof -
  have "occurrences ''1'' (generateHtml (\<lambda>q. []) testAssets testDataUri testOptions) = 6"
    unfolding occurrences_single generateHtml_def count_list_concat
    by (simp add: htmlParts_def testAssets_def testDataUri_def testOptions_def numberToString_1)
  then show ?thesis by (simp add: testOptions_def numberToString_1)
qed

lemma htmlParts_members:
  "jsContent playerAssets \<in> set (htmlParts f playerAssets castDataUri options)"
  "cssContent playerAssets \<in> set (htmlParts f playerAssets castDataUri options)"
  "castDataUri \<in> set (htmlParts f playerAssets castDataUri options)"
  "themeName (theme options) \<in> set (htmlParts f playerAssets castDataUri options)"
  "numberToString f (speed options) \<in> set (htmlParts f playerAssets castDataUri options)"
  by (simp_all add: htmlParts_def)

text \<open>
  Claim C4, amended. For every \<^verbatim>\<open>PlayerAssets\<close> value, data URI and parsed options, the
  page that \<^verbatim>\<open>generateHtml\<close> returns contains the script content, the style content,
  the data URI, the theme literal and the speed literal as verbatim substrings: each
  occurs at least once.
\<close>

theorem generateHtml_contains:
  "sublist (jsContent playerAssets) (generateHtml f playerAssets castDataUri options) \<and>
   sublist (cssContent playerAssets) (generateHtml f playerAssets castDataUri options) \<and>
   sublist castDataUri (generateHtml f playerAssets castDataUri options) \<and>
   sublist (themeName (theme options)) (generateHtml f playerAssets castDataUri options) \<and>
   sublist (numberToString f (speed options)) (generateHtml f playerAssets castDataUri options) \<and>
   1 \<le> occurrences (jsContent playerAssets) (generateHtml f playerAssets castDataUri options) \<and>
   1 \<le> occurrences (cssContent playerAssets) (generateHtml f playerAssets castDataUri options) \<and>
   1 \<le> occurrences castDataUri (generateHtml f playerAssets castDataUri options) \<and>
   1 \<le> occurrences (themeName (theme options)) (generateHtml f playerAssets castDataUri options) \<and>
   1 \<le> occurrences (numberToString f (speed options))
         (generateHtml f playerAssets castDataUri options)"
  unfolding generateHtml_def
  by (intro conjI sublist_occurrences sublist_concat_member htmlParts_members)

subsection \<open>The bootstrap script\<close>

lemma htmlParts_listener:
  "\<exists>xs zs. htmlParts f playerAssets castDataUri options = xs @ endedListenerText @ zs"
  unfolding endedListenerText_def
  by (rule exI[of _ "take 108 (htmlParts f playerAssets castDataUri options)"],
      rule exI[of _ "drop 122 (htmlParts f playerAssets castDataUri options)"])
     (simp add: htmlParts_def)

lemma generateHtml_listener:
  "sublist (concat endedListenerText) (generateHtml f playerAssets castDataUri options)"
proof -
  obtain xs zs where "htmlParts f playerAssets castDataUri options = xs @ endedListenerText @ zs"
    using htmlParts_listener by blast
  then show ?thesis
    unfolding generateHtml_def using sublist_concat_part[of endedListenerText xs zs] by simp
qed

text \<open>
  Claim C8. Every generated page carries the listener of the player's \<^verbatim>\<open>ended\<close> event
  verbatim, and the listener sets the global \<open>ended\<close> flag through a timer of 1000 ms:
  when the script has created the player and the event fires at time \<open>t0\<close>, the flag
  is still false right after the event, and at any time \<open>t\<close> it is true exactly when
  \<open>t0 + 1000 \<le> t\<close>.
\<close>

theorem bootstrap_ended_delay:
  "sublist (concat endedListenerText) (generateHtml f playerAssets castDataUri options) \<and>
   \<not> playerEnded (bootstrap None freshWindow) \<and>
   \<not> playerEnded (playerEndedEvent (advance t0 (bootstrap None freshWindow))) \<and>
   timers (playerEndedEvent (advance t0 (bootstrap None freshWindow))) = [t0 + 1000] \<and>
   (\<forall>t. playerEnded (advance t (playerEndedEvent (advance t0 (bootstrap None freshWindow))))
        \<longleftrightarrow> t0 + 1000 \<le> t)"
  by (auto simp: generateHtml_listener bootstrap_def freshWindow_def advance_def
      playerEndedEvent_def)

subsection \<open>Player initializer\<close>

lemma expressions_differ: "readyExpression \<noteq> endedExpression"
  by (simp add: readyExpression_def endedExpression_def)

lemma setupPlayer_waits:
  "WaitForFunction expression timeout \<in> set (fst (setupPlayer page html)) \<Longrightarrow>
     expression = readyExpression \<and> timeout = 15000"
  by (auto simp: setupPlayer_def Let_def split: settled.splits if_splits)

lemma recordVideo_waits:
  "WaitForFunction expression timeout \<in> set (fst (recordVideo rec page outputPath options)) \<Longrightarrow>
     expression = endedExpression \<and> timeout = 0"
  by (auto simp: recordVideo_def Let_def split: settled.splits)

lemma puppeteerWait_bounded:
  "0 < timeout \<Longrightarrow> \<exists>d. snd (puppeteerWait holdsAfter timeout) = Some d \<and> d \<le> timeout"
  by (auto simp: puppeteerWait_def split: option.splits)

lemma setupPlayer_rejected:
  assumes "setContent page html = Resolved ()"
    "waitForFunction page readyExpression 15000 = Rejected e"
    "evaluatePlayerError page = Resolved v"
  shows "setupPlayer page html =
     ([SetContent html, OnConsole, WaitForFunction readyExpression 15000, EvaluatePlayerError]
        @ (if truthy v
           then [Consola LogError [''Player initialization error:'', valueToString v]] else []),
      Rejected (Error (''Player failed to initialize''
        @ (if truthy v then '': '' @ valueToString v else []))))"
  using assms by (simp add: setupPlayer_def Let_def)

text \<open>
  Claim C5, amended. \<^verbatim>\<open>setupPlayer\<close> waits for the readiness flag with a timeout of
  15000 ms and makes no other wait; the wait of \<^verbatim>\<open>recordVideo\<close> has no timeout, so this
  is the only bounded wait. Under the timeout rule of the library the wait settles within
  15000 ms, and it rejects when the flag never becomes true. When the wait fails, the
  function reads the page's error flag and throws: the message is
  \<open>Player failed to initialize: \<close> followed by the error text when the flag holds a truthy
  value (a non-empty text), and the generic \<open>Player failed to initialize\<close> otherwise.
\<close>

theorem setupPlayer_failure:
  "(\<forall>expression timeout.
      WaitForFunction expression timeout \<in> set (fst (setupPlayer page html)) \<longrightarrow>
        expression = readyExpression \<and> timeout = 15000) \<and>
   (\<forall>expression timeout.
      WaitForFunction expression timeout \<in> set (fst (recordVideo rec page outputPath options)) \<longrightarrow>
        timeout = 0) \<and>
   (\<exists>d. snd (puppeteerWait readyAfter 15000) = Some d \<and> d \<le> 15000) \<and>
   fst (puppeteerWait None 15000) \<noteq> Pending \<and> fst (puppeteerWait None 15000) \<noteq> Resolved () \<and>
   (setContent page html = Resolved () \<and>
    waitForFunction page readyExpression 15000 = Rejected e \<and>
    evaluatePlayerError page = Resolved v \<longrightarrow>
      EvaluatePlayerError \<in> set (fst (setupPlayer page html)) \<and>
      (truthy v \<longrightarrow>
         snd (setupPlayer page html)
           = Rejected (Error (''Player failed to initialize: '' @ valueToString v)) \<and>
         suffix ('': '' @ valueToString v) (''Player failed to initialize: '' @ valueToString v)) \<and>
      (\<not> truthy v \<longrightarrow>
         snd (setupPlayer page html) = Rejected (Error ''Player failed to initialize'')))"
proof -
  have a: "\<forall>expression timeout.
      WaitForFunction expression timeout \<in> set (fst (setupPlayer page html)) \<longrightarrow>
        expression = readyExpression \<and> timeout = 15000"
    using setupPlayer_waits by blast
  have b: "\<forall>expression timeout.
      WaitForFunction expression timeout \<in> set (fst (recordVideo rec page outputPath options)) \<longrightarrow>
        timeout = 0"
    using recordVideo_waits by blast
  have c: "\<exists>d. snd (puppeteerWait readyAfter 15000) = Some d \<and> d \<le> 15000"
    using puppeteerWait_bounded[of 15000 readyAfter] by simp
  have d: "fst (puppeteerWait None 15000) \<noteq> Pending"
    "fst (puppeteerWait None 15000) \<noteq> Resolved ()"
    by (simp_all add: puppeteerWait_def)
  have e: "setContent page html = Resolved () \<and>
    waitForFunction page readyExpression 15000 = Rejected e \<and>
    evaluatePlayerError page = Resolved v \<longrightarrow>
      EvaluatePlayerError \<in> set (fst (setupPlayer page html)) \<and>
      (truthy v \<longrightarrow>
         snd (setupPlayer page html)
           = Rejected (Error (''Player failed to initialize: '' @ valueToString v)) \<and>
         suffix ('': '' @ valueToString v) (''Player failed to initialize: '' @ valueToString v)) \<and>
      (\<not> truthy v \<longrightarrow>
         snd (setupPlayer page html) = Rejected (Error ''Player failed to initialize''))"
  proof (intro impI, elim conjE)
    assume h: "setContent page html = Resolved ()"
      "waitForFunction page readyExpression 15000 = Rejected e"
      "evaluatePlayerError page = Resolved v"
    have "suffix ('': '' @ valueToString v) (''Player failed to initialize'' @ '': '' @ valueToString v)"
      by (rule suffix_appendI) simp
    then show "EvaluatePlayerError \<in> set (fst (setupPlayer page html)) \<and>
      (truthy v \<longrightarrow>
         snd (setupPlayer page html)
           = Rejected (Error (''Player failed to initialize: '' @ valueToString v)) \<and>
         suffix ('': '' @ valueToString v) (''Player failed to initialize: '' @ valueToString v)) \<and>
      (\<not> truthy v \<longrightarrow>
         snd (setupPlayer page html) = Rejected (Error ''Player failed to initialize''))"
      by (simp add: setupPlayer_rejected[OF h])
  qed
  from a b c d e show ?thesis by (intro conjI)
qed

lemma timedPage_fields:
  "setContent (timedPage r n v) html = Resolved ()"
  "waitForFunction (timedPage r n v) readyExpression timeout = fst (puppeteerWait r timeout)"
  "waitForFunction (timedPage r n v) endedExpression timeout = fst (puppeteerWait n timeout)"
  "evaluatePlayerError (timedPage r n v) = Resolved v"
  "evaluatePlay (timedPage r n v) = Resolved ()"
  using expressions_differ by (simp_all add: timedPage_def)

theorem setupPlayer_failure_witness:
  "setContent (timedPage None None (Str ''boom'')) ''<html></html>'' = Resolved () \<and>
   waitForFunction (timedPage None None (Str ''boom'')) readyExpression 15000
     = Rejected (Error ''Waiting failed: timeout exceeded'') \<and>
   evaluatePlayerError (timedPage None None (Str ''boom'')) = Resolved (Str ''boom'') \<and>
   truthy (Str ''boom'') \<and>
   snd (setupPlayer (timedPage None None (Str ''boom'')) ''<html></html>'')
     = Rejected (Error ''Player failed to initialize: boom'')"
proof -
  let ?p = "timedPage None None (Str ''boom'')"
  have h: "setContent ?p ''<html></html>'' = Resolved ()"
    "waitForFunction ?p readyExpression 15000 = Rejected (Error ''Waiting failed: timeout exceeded'')"
    "evaluatePlayerError ?p = Resolved (Str ''boom'')"
    "truthy (Str ''boom'')"
    by (simp_all add: timedPage_fields puppeteerWait_def)
  note T = setupPlayer_failure[of ?p "''<html></html>''" workingRecorder "''out.mp4''" testOptions
      None "Error ''Waiting failed: timeout exceeded''" "Str ''boom''"]
  from T h have "snd (setupPlayer ?p ''<html></html>'')
      = Rejected (Error (''Player failed to initialize: '' @ valueToString (Str ''boom'')))"
    by blast
  then have "snd (setupPlayer ?p ''<html></html>'') = Rejected (Error ''Player failed to initialize: boom'')"
    by simp
  with h show ?thesis by blast
qed

text \<open>
  Claim C5 says that the message ends with \<open>: \<close> and the error text whenever the error
  flag was set. A page whose error flag was set to the empty text gets the generic
  message, which does not end with \<open>: \<close>.
\<close>

theorem setupPlayer_empty_error_counterexample:
  "evaluatePlayerError (timedPage None None (Str [])) = Resolved (Str []) \<and>
   snd (setupPlayer (timedPage None None (Str [])) ''<html><body>Test</body></html>'')
     = Rejected (Error ''Player failed to initialize'') \<and>
   \<not> suffix ('': '' @ valueToString (Str [])) ''Player failed to initialize''"
proof -
  let ?p = "timedPage None None (Str [])"
  have "setupPlayer ?p ''<html><body>Test</body></html>'' =
     ([SetContent ''<html><body>Test</body></html>'', OnConsole,
       WaitForFunction readyExpression 15000, EvaluatePlayerError]
        @ (if truthy (Str [])
           then [Consola LogError [''Player initialization error:'', valueToString (Str [])]]
           else []),
      Rejected (Error (''Player failed to initialize''
        @ (if truthy (Str []) then '': '' @ valueToString (Str []) else []))))"
    by (rule setupPlayer_rejected) (simp_all add: timedPage_fields puppeteerWait_def)
  moreover have "\<not> suffix '': '' ''Player failed to initialize''"
    by (simp add: suffix_def)
  ultimately show ?thesis by (simp add: timedPage_fields)
qed

text \<open>
  Claim C10. When the readiness wait fails and the error flag holds the empty text (or
  \<open>null\<close>, or was never assigned), the failure is the generic
  \<open>Player failed to initialize\<close> with no suffix, and no error is logged; the detail is
  appended only when the recorded text is not empty.
\<close>

theorem setupPlayer_falsy_error:
  "setContent page html = Resolved () \<and>
   waitForFunction page readyExpression 15000 = Rejected e \<and>
   evaluatePlayerError page = Resolved v \<longrightarrow>
     (\<not> truthy v \<longrightarrow>
        setupPlayer page html =
          ([SetContent html, OnConsole, WaitForFunction readyExpression 15000,
            EvaluatePlayerError],
           Rejected (Error ''Player failed to initialize''))) \<and>
     (v = Str [] \<or> v = Null \<or> v = Undefined \<longrightarrow> \<not> truthy v) \<and>
     (\<forall>s. v = Str s \<longrightarrow>
        snd (setupPlayer page html)
          = Rejected (Error (if s = [] then ''Player failed to initialize''
                             else ''Player failed to initialize: '' @ s)))"
proof (intro impI, elim conjE)
  assume h: "setContent page html = Resolved ()"
    "waitForFunction page readyExpression 15000 = Rejected e"
    "evaluatePlayerError page = Resolved v"
  show "(\<not> truthy v \<longrightarrow>
        setupPlayer page html =
          ([SetContent html, OnConsole, WaitForFunction readyExpression 15000,
            EvaluatePlayerError],
           Rejected (Error ''Player failed to initialize''))) \<and>
     (v = Str [] \<or> v = Null \<or> v = Undefined \<longrightarrow> \<not> truthy v) \<and>
     (\<forall>s. v = Str s \<longrightarrow>
        snd (setupPlayer page html)
          = Rejected (Error (if s = [] then ''Player failed to initialize''
                             else ''Player failed to initialize: '' @ s)))"
    by (auto simp: setupPlayer_rejected[OF h])
qed

theorem setupPlayer_falsy_error_witness:
  "setContent (timedPage None None (Str [])) ''<html></html>'' = Resolved () \<and>
   waitForFunction (timedPage None None (Str [])) readyExpression 15000
     = Rejected (Error ''Waiting failed: timeout exceeded'') \<and>
   evaluatePlayerError (timedPage None None (Str [])) = Resolved (Str []) \<and>
   \<not> truthy (Str []) \<and>
   setupPlayer (timedPage None None (Str [])) ''<html></html>''
     = ([SetContent ''<html></html>'', OnConsole, WaitForFunction readyExpression 15000,
         EvaluatePlayerError],
        Rejected (Error ''Player failed to initialize''))"
proof -
  let ?p = "timedPage None None (Str [])"
  have h: "setContent ?p ''<html></html>'' = Resolved ()"
    "waitForFunction ?p readyExpression 15000 = Rejected (Error ''Waiting failed: timeout exceeded'')"
    "evaluatePlayerError ?p = Resolved (Str [])"
    "\<not> truthy (Str [])"
    by (simp_all add: timedPage_fields puppeteerWait_def)
  note T = setupPlayer_falsy_error[of ?p "''<html></html>''"
      "Error ''Waiting failed: timeout exceeded''" "Str []"]
  from T h have "setupPlayer ?p ''<html></html>''
     = ([SetContent ''<html></html>'', OnConsole, WaitForFunction readyExpression 15000,
         EvaluatePlayerError],
        Rejected (Error ''Player failed to initialize''))"
    by blast
  with h show ?thesis by blast
qed

subsection \<open>Recorder\<close>

lemma recordVideo_config:
  "NewRecorder cfg \<in> set (fst (recordVideo rec page outputPath options)) \<Longrightarrow>
     fps cfg = 60 \<and> \<not> followNewTab cfg \<and> videoFrameWidth cfg = width options \<and>
     videoFrameHeight cfg = height options \<and> importFfmpeg rec = Resolved (ffmpeg_Path cfg)"
  by (auto simp: recordVideo_def Let_def split: settled.splits)

lemma recordVideo_success:
  assumes "importFfmpeg rec = Resolved ffmpegPath" "recorderStart rec outputPath = Resolved ()"
    "evaluatePlay page = Resolved ()" "waitForFunction page endedExpression 0 = Resolved ()"
    "recorderStop rec = Resolved ()"
  shows "recordVideo rec page outputPath options =
     ([ImportFfmpeg,
       NewRecorder \<lparr> followNewTab = False, fps = 60, ffmpeg_Path = ffmpegPath,
                     videoFrameWidth = width options, videoFrameHeight = height options \<rparr>,
       Consola LogStart [''Starting recording...''],
       RecorderStart outputPath,
       Consola LogInfo [''Starting playback...''],
       EvaluatePlay,
       WaitForFunction endedExpression 0,
       Consola LogInfo [''Stopping recording...''],
       RecorderStop],
      Resolved ())"
  using assms by (simp add: recordVideo_def Let_def)

lemma recordVideo_stop:
  assumes "RecorderStop \<in> set (fst (recordVideo rec page outputPath options))"
  shows "waitForFunction page endedExpression 0 = Resolved () \<and>
     (\<exists>ffmpegPath. fst (recordVideo rec page outputPath options) =
       [ImportFfmpeg,
        NewRecorder \<lparr> followNewTab = False, fps = 60, ffmpeg_Path = ffmpegPath,
                      videoFrameWidth = width options, videoFrameHeight = height options \<rparr>,
        Consola LogStart [''Starting recording...''],
        RecorderStart outputPath,
        Consola LogInfo [''Starting playback...''],
        EvaluatePlay,
        WaitForFunction endedExpression 0,
        Consola LogInfo [''Stopping recording...''],
        RecorderStop])"
  using assms by (auto simp: recordVideo_def Let_def split: settled.splits)

lemma recordVideo_pending:
  assumes "importFfmpeg rec = Resolved ffmpegPath" "recorderStart rec outputPath = Resolved ()"
    "evaluatePlay page = Resolved ()" "waitForFunction page endedExpression 0 = Pending"
  shows "snd (recordVideo rec page outputPath options) = Pending \<and>
     RecorderStop \<notin> set (fst (recordVideo rec page outputPath options))"
  using assms by (simp add: recordVideo_def Let_def)

text \<open>
  Claim C6. For every parsed options value, \<^verbatim>\<open>recordVideo\<close> creates the recorder with
  60 frames per second and a frame of the parsed width and height, starts the capture,
  triggers the playback, then waits for the \<open>ended\<close> flag with timeout 0, which is the
  only wait it makes, and stops the capture only after that wait has resolved. The wait
  is unbounded: under the timeout rule of the library it resolves whenever the flag
  becomes true, however late, and never settles when it does not; then \<^verbatim>\<open>recordVideo\<close>
  never returns and the capture is not stopped.
\<close>

theorem recordVideo_sequence:
  "(\<forall>cfg. NewRecorder cfg \<in> set (fst (recordVideo rec page outputPath options)) \<longrightarrow>
      fps cfg = 60 \<and> videoFrameWidth cfg = width options \<and>
      videoFrameHeight cfg = height options) \<and>
   (\<forall>expression timeout.
      WaitForFunction expression timeout \<in> set (fst (recordVideo rec page outputPath options)) \<longrightarrow>
        expression = endedExpression \<and> timeout = 0) \<and>
   (importFfmpeg rec = Resolved ffmpegPath \<and> recorderStart rec outputPath = Resolved () \<and>
    evaluatePlay page = Resolved () \<and> waitForFunction page endedExpression 0 = Resolved () \<and>
    recorderStop rec = Resolved () \<longrightarrow>
      recordVideo rec page outputPath options =
        ([ImportFfmpeg,
          NewRecorder \<lparr> followNewTab = False, fps = 60, ffmpeg_Path = ffmpegPath,
                        videoFrameWidth = width options, videoFrameHeight = height options \<rparr>,
          Consola LogStart [''Starting recording...''],
          RecorderStart outputPath,
          Consola LogInfo [''Starting playback...''],
          EvaluatePlay,
          WaitForFunction endedExpression 0,
          Consola LogInfo [''Stopping recording...''],
          RecorderStop],
         Resolved ())) \<and>
   (RecorderStop \<in> set (fst (recordVideo rec page outputPath options)) \<longrightarrow>
      waitForFunction page endedExpression 0 = Resolved () \<and>
      (\<exists>before. fst (recordVideo rec page outputPath options) = before @ [RecorderStop] \<and>
         RecorderStart outputPath \<in> set before \<and> EvaluatePlay \<in> set before \<and>
         WaitForFunction endedExpression 0 \<in> set before)) \<and>
   (\<forall>t. puppeteerWait (Some t) 0 = (Resolved (), Some t)) \<and>
   puppeteerWait None 0 = (Pending, None) \<and>
   (\<forall>t. snd (recordVideo workingRecorder (timedPage readyAfter (Some t) v) outputPath options)
          = Resolved ()) \<and>
   snd (recordVideo workingRecorder (timedPage readyAfter None v) outputPath options) = Pending \<and>
   RecorderStop \<notin>
     set (fst (recordVideo workingRecorder (timedPage readyAfter None v) outputPath options))"
proof -
  let ?R = "recordVideo rec page outputPath options"
  have a: "\<forall>cfg. NewRecorder cfg \<in> set (fst ?R) \<longrightarrow>
      fps cfg = 60 \<and> videoFrameWidth cfg = width options \<and>
      videoFrameHeight cfg = height options"
    using recordVideo_config by blast
  have b: "\<forall>expression timeout. WaitForFunction expression timeout \<in> set (fst ?R) \<longrightarrow>
        expression = endedExpression \<and> timeout = 0"
    by (auto simp: recordVideo_def Let_def split: settled.splits)
  have c: "importFfmpeg rec = Resolved ffmpegPath \<and> recorderStart rec outputPath = Resolved () \<and>
    evaluatePlay page = Resolved () \<and> waitForFunction page endedExpression 0 = Resolved () \<and>
    recorderStop rec = Resolved () \<longrightarrow>
      ?R =
        ([ImportFfmpeg,
          NewRecorder \<lparr> followNewTab = False, fps = 60, ffmpeg_Path = ffmpegPath,
                        videoFrameWidth = width options, videoFrameHeight = height options \<rparr>,
          Consola LogStart [''Starting recording...''],
          RecorderStart outputPath,
          Consola LogInfo [''Starting playback...''],
          EvaluatePlay,
          WaitForFunction endedExpression 0,
          Consola LogInfo [''Stopping recording...''],
          RecorderStop],
         Resolved ())"
    using recordVideo_success by blast
  have d: "RecorderStop \<in> set (fst ?R) \<longrightarrow>
      waitForFunction page endedExpression 0 = Resolved () \<and>
      (\<exists>before. fst ?R = before @ [RecorderStop] \<and>
         RecorderStart outputPath \<in> set before \<and> EvaluatePlay \<in> set before \<and>
         WaitForFunction endedExpression 0 \<in> set before)"
  proof
    assume "RecorderStop \<in> set (fst ?R)"
    from recordVideo_stop[OF this] obtain ffmpegPath where
      w: "waitForFunction page endedExpression 0 = Resolved ()" and
      t: "fst ?R =
       [ImportFfmpeg,
        NewRecorder \<lparr> followNewTab = False, fps = 60, ffmpeg_Path = ffmpegPath,
                      videoFrameWidth = width options, videoFrameHeight = height options \<rparr>,
        Consola LogStart [''Starting recording...''],
        RecorderStart outputPath,
        Consola LogInfo [''Starting playback...''],
        EvaluatePlay,
        WaitForFunction endedExpression 0,
        Consola LogInfo [''Stopping recording...'']] @ [RecorderStop]"
      by auto
    from t have "\<exists>before. fst ?R = before @ [RecorderStop] \<and>
         RecorderStart outputPath \<in> set before \<and> EvaluatePlay \<in> set before \<and>
         WaitForFunction endedExpression 0 \<in> set before"
      by (intro exI[of _ "butlast (fst ?R)"]) simp
    with w show "waitForFunction page endedExpression 0 = Resolved () \<and>
      (\<exists>before. fst ?R = before @ [RecorderStop] \<and>
         RecorderStart outputPath \<in> set before \<and> EvaluatePlay \<in> set before \<and>
         WaitForFunction endedExpression 0 \<in> set before)" by blast
  qed
  have e: "\<forall>t. puppeteerWait (Some t) 0 = (Resolved (), Some t)"
    "puppeteerWait None 0 = (Pending, None)"
    by (simp_all add: puppeteerWait_def)
  have f: "\<forall>t. snd (recordVideo workingRecorder (timedPage readyAfter (Some t) v) outputPath options)
          = Resolved ()"
    by (simp add: recordVideo_def Let_def workingRecorder_def timedPage_fields puppeteerWait_def)
  have g: "snd (recordVideo workingRecorder (timedPage readyAfter None v) outputPath options) = Pending"
    "RecorderStop \<notin>
     set (fst (recordVideo workingRecorder (timedPage readyAfter None v) outputPath options))"
    by (simp_all add: recordVideo_def Let_def workingRecorder_def timedPage_fields puppeteerWait_def)
  from a b c d e f g show ?thesis by (intro conjI)
qed

theorem recordVideo_sequence_witness:
  "importFfmpeg workingRecorder = Resolved ''/path/to/ffmpeg'' \<and>
   recorderStart workingRecorder ''/absolute/test.mp4'' = Resolved () \<and>
   evaluatePlay (timedPage (Some 100) (Some 90000) Undefined) = Resolved () \<and>
   waitForFunction (timedPage (Some 100) (Some 90000) Undefined) endedExpression 0 = Resolved () \<and>
   recorderStop workingRecorder = Resolved () \<and>
   recordVideo workingRecorder (timedPage (Some 100) (Some 90000) Undefined)
       ''/absolute/test.mp4'' testOptions =
     ([ImportFfmpeg,
       NewRecorder \<lparr> followNewTab = False, fps = 60, ffmpeg_Path = ''/path/to/ffmpeg'',
                     videoFrameWidth = Val 800, videoFrameHeight = Val 600 \<rparr>,
       Consola LogStart [''Starting recording...''],
       RecorderStart ''/absolute/test.mp4'',
       Consola LogInfo [''Starting playback...''],
       EvaluatePlay,
       WaitForFunction endedExpression 0,
       Consola LogInfo [''Stopping recording...''],
       RecorderStop],
      Resolved ())"
proof -
  let ?p = "timedPage (Some 100) (Some 90000) Undefined"
  have h: "importFfmpeg workingRecorder = Resolved ''/path/to/ffmpeg''"
    "recorderStart workingRecorder ''/absolute/test.mp4'' = Resolved ()"
    "evaluatePlay ?p = Resolved ()"
    "waitForFunction ?p endedExpression 0 = Resolved ()"
    "recorderStop workingRecorder = Resolved ()"
    by (simp_all add: workingRecorder_def timedPage_fields puppeteerWait_def)
  note T = recordVideo_sequence[of workingRecorder ?p "''/absolute/test.mp4''" testOptions
      "''/path/to/ffmpeg''" None Undefined]
  from T h have "recordVideo workingRecorder ?p ''/absolute/test.mp4'' testOptions =
     ([ImportFfmpeg,
       NewRecorder \<lparr> followNewTab = False, fps = 60, ffmpeg_Path = ''/path/to/ffmpeg'',
                     videoFrameWidth = width testOptions, videoFrameHeight = height testOptions \<rparr>,
       Consola LogStart [''Starting recording...''],
       RecorderStart ''/absolute/test.mp4'',
       Consola LogInfo [''Starting playback...''],
       EvaluatePlay,
       WaitForFunction endedExpression 0,
       Consola LogInfo [''Stopping recording...''],
       RecorderStop],
      Resolved ())"
    by blast
  then have "recordVideo workingRecorder ?p ''/absolute/test.mp4'' testOptions =
     ([ImportFfmpeg,
       NewRecorder \<lparr> followNewTab = False, fps = 60, ffmpeg_Path = ''/path/to/ffmpeg'',
                     videoFrameWidth = Val 800, videoFrameHeight = Val 600 \<rparr>,
       Consola LogStart [''Starting recording...''],
       RecorderStart ''/absolute/test.mp4'',
       Consola LogInfo [''Starting playback...''],
       EvaluatePlay,
       WaitForFunction endedExpression 0,
       Consola LogInfo [''Stopping recording...''],
       RecorderStop],
      Resolved ())"
    by (simp add: testOptions_def)
  with h show ?thesis by blast
qed

subsection \<open>Top-level orchestrator\<close>




















end
